theory Spec2Isabelle
  imports Main "HOL-Library.Word"
begin

section \<open>The stopwatch of \<open>Stopwatch_Design/main.c\<close>\<close>

text \<open>
  The program keeps its whole state in file-scope \<open>static uint8_t\<close> variables, which
  three interrupt handlers update and the main loop reads. Every variable is an 8-bit
  unsigned machine integer, so it is an \<open>8 word\<close> here: \<open>+\<close> and \<open>-\<close> wrap modulo 256,
  \<open>\<le>\<close> and \<open><\<close> compare unsigned, \<open>div\<close> and \<open>mod\<close> are the unsigned ones. (C promotes the
  operands to \<open>int\<close> and truncates on the store; on values below 256 that is the same.)
\<close>

type_synonym uint8_t = "8 word"

text \<open>
  Modelled from the spec: \<open>GPIO.h\<close> is not among the sources, so the three colour macros
  that \<open>main.c\<close> passes to \<open>RGB_LED_Output\<close> are symbolic values (the indicator's "running",
  "stopped" and "off" outputs are \<open>RGB_LED_GREEN\<close>, \<open>RGB_LED_RED\<close> and \<open>RGB_LED_OFF\<close>).
\<close>

datatype rgb_led_colour = RGB_LED_OFF | RGB_LED_RED | RGB_LED_GREEN

text \<open>
  The globals of \<open>main.c\<close> (lines 39 to 61), and the colour last written by
  \<open>RGB_LED_Output\<close>, which is the only effect of that external call that the program
  can observe.
\<close>

record stopwatch =
  counter :: uint8_t
  ms_elapsed :: uint8_t
  milliseconds :: uint8_t
  seconds :: uint8_t
  minutes :: uint8_t
  start_stopwatch :: uint8_t
  reset_stopwatch :: uint8_t
  rgb_led :: rgb_led_colour

text \<open>
  The state at startup: every global is initialised to 0. What \<open>RGB_LED_Init\<close> leaves on
  the LED is outside the sources, so it is a parameter.
\<close>

definition initial_state :: "rgb_led_colour \<Rightarrow> stopwatch" where
  "initial_state led =
     \<lparr>counter = 0, ms_elapsed = 0, milliseconds = 0, seconds = 0, minutes = 0,
      start_stopwatch = 0, reset_stopwatch = 0, rgb_led = led\<rparr>"

subsection \<open>The handlers\<close>

text \<open>\<open>RGB_LED_Output\<close>: the external call, as a write of the indicator.\<close>

definition RGB_LED_Output :: "rgb_led_colour \<Rightarrow> stopwatch \<Rightarrow> stopwatch" where
  "RGB_LED_Output c s = s\<lparr>rgb_led := c\<rparr>"

text \<open>\<open>PMOD_BTN_Handler\<close> (lines 108 to 148): a switch on the status byte.\<close>

definition PMOD_BTN_Handler :: "uint8_t \<Rightarrow> stopwatch \<Rightarrow> stopwatch" where
  "PMOD_BTN_Handler pmod_btn_status s =
     (if pmod_btn_status = 0x04 then (RGB_LED_Output RGB_LED_GREEN s)\<lparr>start_stopwatch := 0x01\<rparr>
      else if pmod_btn_status = 0x08 then (RGB_LED_Output RGB_LED_RED s)\<lparr>start_stopwatch := 0x00\<rparr>
      else if pmod_btn_status = 0x10 then (RGB_LED_Output RGB_LED_OFF s)\<lparr>reset_stopwatch := 0x01\<rparr>
      else if pmod_btn_status = 0x20 then s
      else s)"

text \<open>\<open>EduBase_Button_Handler\<close> (lines 162 to 197).\<close>

definition EduBase_Button_Handler :: "uint8_t \<Rightarrow> stopwatch \<Rightarrow> stopwatch" where
  "EduBase_Button_Handler edubase_button_status s =
     (if edubase_button_status = 0x08 then
        (if counter s \<ge> 15 then s\<lparr>counter := 0\<rparr> else s\<lparr>counter := counter s + 1\<rparr>)
      else if edubase_button_status = 0x04 then
        (if counter s \<le> 0 then s\<lparr>counter := 15\<rparr> else s\<lparr>counter := counter s - 1\<rparr>)
      else s)"

text \<open>
  \<open>Calculate_Stopwatch_Value\<close> (lines 205 to 220) stores four digits into the caller's
  array and touches no global. The array is a list updated by index; the state is
  returned beside it, so that "no global is written" is a statement about the result.
  The only caller, \<open>main\<close>, passes an array of four elements; on a shorter one the C
  code writes out of bounds, which the model does not describe (a list update out of
  range does nothing), so the statements below are about arrays of four elements.
\<close>

definition Calculate_Stopwatch_Value :: "stopwatch \<Rightarrow> uint8_t list \<Rightarrow> stopwatch \<times> uint8_t list" where
  "Calculate_Stopwatch_Value s stopwatch_value =
     (let v0 = stopwatch_value[0 := milliseconds s];
          v1 = v0[1 := seconds s mod 10];
          v2 = v1[2 := seconds s div 10];
          v3 = v2[3 := minutes s]
      in (s, v3))"

text \<open>
  \<open>Timer_0A_Periodic_Task\<close> (lines 236 to 282): the first \<open>if\<close> advances the counters
  with its nested carries, the second services a reset request. The second reads the
  state the first has left.
\<close>

definition Timer_0A_Periodic_Task :: "stopwatch \<Rightarrow> stopwatch" where
  "Timer_0A_Periodic_Task s =
     (let s1 =
        (if start_stopwatch s = 0x01 then
           (let a = s\<lparr>ms_elapsed := ms_elapsed s + 1\<rparr> in
            if ms_elapsed a > 99 then
              (let b = a\<lparr>ms_elapsed := 0, milliseconds := milliseconds a + 1\<rparr> in
               if milliseconds b > 9 then
                 (let c = b\<lparr>milliseconds := 0, seconds := seconds b + 1\<rparr> in
                  if seconds c > 59 then
                    (let d = c\<lparr>seconds := 0, minutes := minutes c + 1\<rparr> in
                     if minutes d > 9 then d\<lparr>minutes := 0\<rparr> else d)
                  else c)
               else b)
            else a)
         else s)
      in
        if reset_stopwatch s1 = 0x01 then
          s1\<lparr>reset_stopwatch := 0x00, start_stopwatch := 0x00, ms_elapsed := 0,
             milliseconds := 0, seconds := 0, minutes := 0\<rparr>
        else s1)"

subsection \<open>Interleavings of handler invocations\<close>

text \<open>
  A handler body runs to completion before the next one starts, so a run of the system,
  seen between handler bodies, is a sequence of handler invocations, the two button
  handlers with the status byte they are given.
\<close>

datatype event = Tick | PMOD_BTN uint8_t | EduBase_Button uint8_t

fun step :: "event \<Rightarrow> stopwatch \<Rightarrow> stopwatch" where
  "step Tick s = Timer_0A_Periodic_Task s"
| "step (PMOD_BTN b) s = PMOD_BTN_Handler b s"
| "step (EduBase_Button b) s = EduBase_Button_Handler b s"

definition run :: "event list \<Rightarrow> stopwatch \<Rightarrow> stopwatch" where
  "run es s = fold step es s"

subsection \<open>Ranges and elapsed time\<close>

text \<open>
  The ranges of the four counters, as the comments at their declarations give them
  (the tick handler's comparisons are \<open>> 99\<close>, \<open>> 9\<close>, \<open>> 59\<close> and \<open>> 9\<close>). A word is
  unsigned, so the lower bound 0 holds by type.
\<close>

definition in_range :: "stopwatch \<Rightarrow> bool" where
  "in_range s = (ms_elapsed s \<le> 99 \<and> milliseconds s \<le> 9 \<and> seconds s \<le> 59 \<and> minutes s \<le> 9)"

text \<open>The number of ticks that the four counters stand for, as a natural number.\<close>

definition elapsed :: "stopwatch \<Rightarrow> nat" where
  "elapsed s = unat (ms_elapsed s) + 100 * unat (milliseconds s)
               + 1000 * unat (seconds s) + 60000 * unat (minutes s)"

section \<open>Arithmetic of 8-bit counters\<close>

lemma unat_succ:
  fixes x :: uint8_t
  assumes "unat x < 255"
  shows "unat (x + 1) = unat x + 1"
proof -
  from assms have "unat x + unat (1 :: uint8_t) < 2 ^ LENGTH(8)" by simp
  then have "unat (x + 1) = unat x + unat (1 :: uint8_t)" by (simp only: unat_add_lem)
  then show ?thesis by simp
qed

text \<open>Below 255, the comparison \<open>x + 1 > k\<close> of a counter that is at most \<open>k\<close> fires at \<open>k\<close> only.\<close>

lemma carry_iff:
  fixes x :: uint8_t
  assumes "x \<le> k" "unat k < 255"
  shows "(k < x + 1) = (x = k)"
proof -
  from assms have le: "unat x \<le> unat k" by (simp add: word_le_nat_alt)
  with assms(2) have "unat (x + 1) = unat x + 1" by (intro unat_succ) simp
  then have "(k < x + 1) = (unat k < unat x + 1)" by (simp add: word_less_nat_alt)
  also have "\<dots> = (unat x = unat k)" using le by auto
  also have "\<dots> = (x = k)" by (simp add: word_unat_eq_iff)
  finally show ?thesis .
qed

lemma split_digits:
  fixes r q k :: nat
  assumes "r < k"
  shows "(r + k * q) mod k = r" "(r + k * q) div k = q"
  using assms by simp_all

lemma digit_of_mod:
  fixes n a b :: nat
  assumes "0 < a"
  shows "n mod (a * b) div a = n div a mod b"
  using assms by (simp add: mod_mult2_eq)

lemma decode_nat:
  fixes a b c d :: nat
  assumes "a < 100" "b < 10" "c < 60" "d < 10"
  defines "e \<equiv> a + 100 * b + 1000 * c + 60000 * d"
  shows "e mod 100 = a" "e div 100 mod 10 = b" "e div 1000 mod 60 = c" "e div 60000 = d"
proof -
  have e1: "e = a + 100 * (b + 10 * (c + 60 * d))" by (simp add: e_def)
  have e2: "e = (a + 100 * b) + 1000 * (c + 60 * d)" by (simp add: e_def)
  have e3: "e = (a + 100 * b + 1000 * c) + 60000 * d" by (simp add: e_def)
  show "e mod 100 = a" unfolding e1 using assms(1) by (rule split_digits)
  have "e div 100 = b + 10 * (c + 60 * d)" unfolding e1 using assms(1) by (rule split_digits)
  then show "e div 100 mod 10 = b" using assms(2) by (simp only: split_digits)
  have "a + 100 * b < 1000" using assms by simp
  then have "e div 1000 = c + 60 * d" unfolding e2 by (rule split_digits)
  then show "e div 1000 mod 60 = c" using assms(3) by (simp only: split_digits)
  have "a + 100 * b + 1000 * c < 60000" using assms by simp
  then show "e div 60000 = d" unfolding e3 by (rule split_digits)
qed

section \<open>The invariant of the counters\<close>

lemma in_range_tick: "in_range s \<Longrightarrow> in_range (Timer_0A_Periodic_Task s)"
  by (auto simp: in_range_def Timer_0A_Periodic_Task_def Let_def)

lemma in_range_pmod: "in_range s \<Longrightarrow> in_range (PMOD_BTN_Handler b s)"
  by (simp add: in_range_def PMOD_BTN_Handler_def RGB_LED_Output_def)

lemma in_range_edubase: "in_range s \<Longrightarrow> in_range (EduBase_Button_Handler b s)"
  by (simp add: in_range_def EduBase_Button_Handler_def)

lemma in_range_step: "in_range s \<Longrightarrow> in_range (step e s)"
  by (cases e) (simp_all add: in_range_tick in_range_pmod in_range_edubase)

lemma in_range_run: "in_range s \<Longrightarrow> in_range (run es s)"
  unfolding run_def by (induction es arbitrary: s) (simp_all add: in_range_step)

text \<open>
  C1. In every state that the zero-initialised program reaches by handler invocations
  in any order and with any status bytes, the counters are in their ranges:
  \<open>ms_elapsed\<close> at most 99, \<open>milliseconds\<close> at most 9, \<open>seconds\<close> at most 59 and \<open>minutes\<close> at
  most 9 (and at least 0, as unsigned values).
\<close>

theorem counters_in_range:
  "ms_elapsed (run es (initial_state led)) \<le> 99
   \<and> milliseconds (run es (initial_state led)) \<le> 9
   \<and> seconds (run es (initial_state led)) \<le> 59
   \<and> minutes (run es (initial_state led)) \<le> 9"
proof -
  have "in_range (initial_state led)" by (simp add: in_range_def initial_state_def)
  then have "in_range (run es (initial_state led))" by (rule in_range_run)
  then show ?thesis by (simp add: in_range_def)
qed

section \<open>The tick handler while running\<close>

lemma tick_running:
  assumes "in_range s" "start_stopwatch s = 1" "reset_stopwatch s \<noteq> 1"
  shows "Timer_0A_Periodic_Task s =
     s\<lparr>ms_elapsed := (if ms_elapsed s = 99 then 0 else ms_elapsed s + 1),
       milliseconds := (if ms_elapsed s = 99
                        then (if milliseconds s = 9 then 0 else milliseconds s + 1)
                        else milliseconds s),
       seconds := (if ms_elapsed s = 99 \<and> milliseconds s = 9
                   then (if seconds s = 59 then 0 else seconds s + 1)
                   else seconds s),
       minutes := (if ms_elapsed s = 99 \<and> milliseconds s = 9 \<and> seconds s = 59
                   then (if minutes s = 9 then 0 else minutes s + 1)
                   else minutes s)\<rparr>"
proof -
  have a: "(99 < ms_elapsed s + 1) = (ms_elapsed s = 99)"
    using assms(1) by (intro carry_iff) (simp_all add: in_range_def)
  have b: "(9 < milliseconds s + 1) = (milliseconds s = 9)"
    using assms(1) by (intro carry_iff) (simp_all add: in_range_def)
  have c: "(59 < seconds s + 1) = (seconds s = 59)"
    using assms(1) by (intro carry_iff) (simp_all add: in_range_def)
  have d: "(9 < minutes s + 1) = (minutes s = 9)"
    using assms(1) by (intro carry_iff) (simp_all add: in_range_def)
  show ?thesis
    using assms(2,3) by (simp add: Timer_0A_Periodic_Task_def Let_def a b c d)
qed


lemma in_range_unat:
  "in_range s = (unat (ms_elapsed s) \<le> 99 \<and> unat (milliseconds s) \<le> 9
                 \<and> unat (seconds s) \<le> 59 \<and> unat (minutes s) \<le> 9)"
  by (simp add: in_range_def word_le_nat_alt)

lemma elapsed_tick:
  assumes "in_range s" "start_stopwatch s = 1" "reset_stopwatch s \<noteq> 1"
  shows "elapsed (Timer_0A_Periodic_Task s) = (elapsed s + 1) mod 600000"
proof -
  define a b c d where "a = unat (ms_elapsed s)" and "b = unat (milliseconds s)"
    and "c = unat (seconds s)" and "d = unat (minutes s)"
  note abcd = a_def b_def c_def d_def
  from assms(1) have bounds: "a \<le> 99" "b \<le> 9" "c \<le> 59" "d \<le> 9"
    by (simp_all add: in_range_unat abcd)
  have succ: "unat (ms_elapsed s + 1) = a + 1" "unat (milliseconds s + 1) = b + 1"
       "unat (seconds s + 1) = c + 1" "unat (minutes s + 1) = d + 1"
    using bounds by (simp_all add: abcd unat_succ)
  have top: "(ms_elapsed s = 99) = (a = 99)" "(milliseconds s = 9) = (b = 9)"
       "(seconds s = 59) = (c = 59)" "(minutes s = 9) = (d = 9)"
    by (simp_all add: abcd word_unat_eq_iff)
  have e: "elapsed s = a + 100 * b + 1000 * c + 60000 * d"
    by (simp add: elapsed_def abcd)
  consider (none) "a \<noteq> 99"
    | (one) "a = 99" "b \<noteq> 9"
    | (two) "a = 99" "b = 9" "c \<noteq> 59"
    | (three) "a = 99" "b = 9" "c = 59" "d \<noteq> 9"
    | (four) "a = 99" "b = 9" "c = 59" "d = 9"
    by blast
  then show ?thesis
  proof cases
    case none
    then have "elapsed (Timer_0A_Periodic_Task s) = elapsed s + 1"
      by (simp add: tick_running [OF assms] elapsed_def top succ) (simp add: abcd)
    moreover have "elapsed s + 1 < 600000" using none bounds by (simp add: e)
    ultimately show ?thesis by simp
  next
    case one
    then have "elapsed (Timer_0A_Periodic_Task s) = elapsed s + 1"
      by (simp add: tick_running [OF assms] elapsed_def top succ) (simp add: abcd)
    moreover have "elapsed s + 1 < 600000" using one bounds by (simp add: e)
    ultimately show ?thesis by simp
  next
    case two
    then have "elapsed (Timer_0A_Periodic_Task s) = elapsed s + 1"
      by (simp add: tick_running [OF assms] elapsed_def top succ) (simp add: abcd)
    moreover have "elapsed s + 1 < 600000" using two bounds by (simp add: e)
    ultimately show ?thesis by simp
  next
    case three
    then have "elapsed (Timer_0A_Periodic_Task s) = elapsed s + 1"
      by (simp add: tick_running [OF assms] elapsed_def top succ) (simp add: abcd)
    moreover have "elapsed s + 1 < 600000" using three bounds by (simp add: e)
    ultimately show ?thesis by simp
  next
    case four
    then have "elapsed (Timer_0A_Periodic_Task s) = 0"
      by (simp add: tick_running [OF assms] elapsed_def top)
    moreover have "elapsed s + 1 = 600000" using four by (simp add: e)
    ultimately show ?thesis by simp
  qed
qed

lemma elapsed_bound: "in_range s \<Longrightarrow> elapsed s < 600000"
  by (simp add: in_range_unat elapsed_def)

lemma tick_running_frame:
  assumes "in_range s" "start_stopwatch s = 1" "reset_stopwatch s \<noteq> 1"
  shows "start_stopwatch (Timer_0A_Periodic_Task s) = 1
         \<and> reset_stopwatch (Timer_0A_Periodic_Task s) = reset_stopwatch s
         \<and> counter (Timer_0A_Periodic_Task s) = counter s
         \<and> rgb_led (Timer_0A_Periodic_Task s) = rgb_led s"
  by (simp add: tick_running [OF assms] assms(2))

lemma ticks_running:
  assumes "in_range s" "start_stopwatch s = 1" "reset_stopwatch s \<noteq> 1"
  shows "in_range ((Timer_0A_Periodic_Task ^^ n) s)
         \<and> start_stopwatch ((Timer_0A_Periodic_Task ^^ n) s) = 1
         \<and> reset_stopwatch ((Timer_0A_Periodic_Task ^^ n) s) = reset_stopwatch s
         \<and> counter ((Timer_0A_Periodic_Task ^^ n) s) = counter s
         \<and> rgb_led ((Timer_0A_Periodic_Task ^^ n) s) = rgb_led s
         \<and> elapsed ((Timer_0A_Periodic_Task ^^ n) s) = (elapsed s + n) mod 600000"
proof (induction n)
  case 0
  with assms show ?case by (simp add: elapsed_bound)
next
  case (Suc n)
  let ?t = "(Timer_0A_Periodic_Task ^^ n) s"
  from Suc have t: "in_range ?t" "start_stopwatch ?t = 1" "reset_stopwatch ?t \<noteq> 1"
    using assms(3) by simp_all
  have "elapsed (Timer_0A_Periodic_Task ?t) = (elapsed ?t + 1) mod 600000"
    by (rule elapsed_tick [OF t])
  also have "\<dots> = ((elapsed s + n) mod 600000 + 1) mod 600000"
    using Suc by simp
  also have "\<dots> = (elapsed s + Suc n) mod 600000"
    by (simp add: mod_Suc_eq)
  finally have el: "elapsed (Timer_0A_Periodic_Task ?t) = (elapsed s + Suc n) mod 600000" .
  from tick_running_frame [OF t] in_range_tick [OF t(1)] el Suc show ?case
    by simp
qed

lemma decode_elapsed:
  assumes "in_range s"
  shows "unat (ms_elapsed s) = elapsed s mod 100"
    and "unat (milliseconds s) = elapsed s div 100 mod 10"
    and "unat (seconds s) = elapsed s div 1000 mod 60"
    and "unat (minutes s) = elapsed s div 60000"
proof -
  from assms have bounds: "unat (ms_elapsed s) < 100" "unat (milliseconds s) < 10"
      "unat (seconds s) < 60" "unat (minutes s) < 10"
    by (simp_all add: in_range_unat)
  show "unat (ms_elapsed s) = elapsed s mod 100"
    unfolding elapsed_def by (rule decode_nat(1) [OF bounds, symmetric])
  show "unat (milliseconds s) = elapsed s div 100 mod 10"
    unfolding elapsed_def by (rule decode_nat(2) [OF bounds, symmetric])
  show "unat (seconds s) = elapsed s div 1000 mod 60"
    unfolding elapsed_def by (rule decode_nat(3) [OF bounds, symmetric])
  show "unat (minutes s) = elapsed s div 60000"
    unfolding elapsed_def by (rule decode_nat(4) [OF bounds, symmetric])
qed

text \<open>
  From a running state whose counters are all 0, \<open>n\<close> ticks leave the digits of \<open>n\<close>:
  the counters read \<open>n mod 100\<close>, \<open>n div 100 mod 10\<close>, \<open>n div 1000 mod 60\<close> and
  \<open>n div 60000 mod 10\<close>, and nothing else has changed.
\<close>

lemma ticks_from_zero:
  assumes zero: "ms_elapsed s = 0" "milliseconds s = 0" "seconds s = 0" "minutes s = 0"
    and flags: "start_stopwatch s = 1" "reset_stopwatch s \<noteq> 1"
  shows "(Timer_0A_Periodic_Task ^^ n) s =
           s\<lparr>ms_elapsed := of_nat (n mod 100),
             milliseconds := of_nat (n div 100 mod 10),
             seconds := of_nat (n div 1000 mod 60),
             minutes := of_nat (n div 60000 mod 10)\<rparr>"
proof -
  let ?t = "(Timer_0A_Periodic_Task ^^ n) s"
  from zero have r: "in_range s" by (simp add: in_range_def)
  from zero have e0: "elapsed s = 0" by (simp add: elapsed_def)
  note run = ticks_running [OF r flags, of n]
  from run have rt: "in_range ?t" by simp
  from run e0 have et: "elapsed ?t = n mod 600000" by simp
  have d1: "n mod 600000 mod 100 = n mod 100"
    by (rule mod_mod_cancel) simp
  have "n mod (100 * 6000) div 100 = n div 100 mod 6000"
    by (rule digit_of_mod) simp
  moreover have "n div 100 mod 6000 mod 10 = n div 100 mod 10"
    by (rule mod_mod_cancel) simp
  ultimately have d2: "n mod 600000 div 100 mod 10 = n div 100 mod 10"
    by simp
  have "n mod (1000 * 600) div 1000 = n div 1000 mod 600"
    by (rule digit_of_mod) simp
  moreover have "n div 1000 mod 600 mod 60 = n div 1000 mod 60"
    by (rule mod_mod_cancel) simp
  ultimately have d3: "n mod 600000 div 1000 mod 60 = n div 1000 mod 60"
    by simp
  have "n mod (60000 * 10) div 60000 = n div 60000 mod 10"
    by (rule digit_of_mod) simp
  then have d4: "n mod 600000 div 60000 = n div 60000 mod 10"
    by simp
  have "ms_elapsed ?t = of_nat (unat (ms_elapsed ?t))" by simp
  then have f1: "ms_elapsed ?t = of_nat (n mod 100)"
    by (simp only: decode_elapsed(1) [OF rt] et d1)
  have "milliseconds ?t = of_nat (unat (milliseconds ?t))" by simp
  then have f2: "milliseconds ?t = of_nat (n div 100 mod 10)"
    by (simp only: decode_elapsed(2) [OF rt] et d2)
  have "seconds ?t = of_nat (unat (seconds ?t))" by simp
  then have f3: "seconds ?t = of_nat (n div 1000 mod 60)"
    by (simp only: decode_elapsed(3) [OF rt] et d3)
  have "minutes ?t = of_nat (unat (minutes ?t))" by simp
  then have f4: "minutes ?t = of_nat (n div 60000 mod 10)"
    by (simp only: decode_elapsed(4) [OF rt] et d4)
  show ?thesis
    by (rule stopwatch.equality) (simp_all add: f1 f2 f3 f4 run flags)
qed

text \<open>
  C2. From the state with the four counters at 0, \<open>start_stopwatch\<close> 1 and \<open>reset_stopwatch\<close> 0
  (whatever the selection counter and the indicator), 100 invocations of the tick
  handler leave \<open>milliseconds\<close> at 1 and the other counters at 0; 1000 leave \<open>seconds\<close> at 1
  and the others at 0; 60000 leave \<open>minutes\<close> at 1 and the others at 0; and 600000 leave
  all four at 0 again. The flags are as they were.
\<close>

theorem carry_correctness:
  "(Timer_0A_Periodic_Task ^^ 100)
      \<lparr>counter = k, ms_elapsed = 0, milliseconds = 0, seconds = 0, minutes = 0,
       start_stopwatch = 1, reset_stopwatch = 0, rgb_led = led\<rparr>
     = \<lparr>counter = k, ms_elapsed = 0, milliseconds = 1, seconds = 0, minutes = 0,
        start_stopwatch = 1, reset_stopwatch = 0, rgb_led = led\<rparr>
   \<and> (Timer_0A_Periodic_Task ^^ 1000)
      \<lparr>counter = k, ms_elapsed = 0, milliseconds = 0, seconds = 0, minutes = 0,
       start_stopwatch = 1, reset_stopwatch = 0, rgb_led = led\<rparr>
     = \<lparr>counter = k, ms_elapsed = 0, milliseconds = 0, seconds = 1, minutes = 0,
        start_stopwatch = 1, reset_stopwatch = 0, rgb_led = led\<rparr>
   \<and> (Timer_0A_Periodic_Task ^^ 60000)
      \<lparr>counter = k, ms_elapsed = 0, milliseconds = 0, seconds = 0, minutes = 0,
       start_stopwatch = 1, reset_stopwatch = 0, rgb_led = led\<rparr>
     = \<lparr>counter = k, ms_elapsed = 0, milliseconds = 0, seconds = 0, minutes = 1,
        start_stopwatch = 1, reset_stopwatch = 0, rgb_led = led\<rparr>
   \<and> (Timer_0A_Periodic_Task ^^ 600000)
      \<lparr>counter = k, ms_elapsed = 0, milliseconds = 0, seconds = 0, minutes = 0,
       start_stopwatch = 1, reset_stopwatch = 0, rgb_led = led\<rparr>
     = \<lparr>counter = k, ms_elapsed = 0, milliseconds = 0, seconds = 0, minutes = 0,
        start_stopwatch = 1, reset_stopwatch = 0, rgb_led = led\<rparr>"
proof -
  let ?s = "\<lparr>counter = k, ms_elapsed = 0, milliseconds = 0, seconds = 0, minutes = 0,
       start_stopwatch = 1, reset_stopwatch = 0, rgb_led = led\<rparr>"
  have general: "(Timer_0A_Periodic_Task ^^ n) ?s =
           ?s\<lparr>ms_elapsed := of_nat (n mod 100),
             milliseconds := of_nat (n div 100 mod 10),
             seconds := of_nat (n div 1000 mod 60),
             minutes := of_nat (n div 60000 mod 10)\<rparr>" for n
    by (rule ticks_from_zero) simp_all
  have "(Timer_0A_Periodic_Task ^^ 100) ?s = ?s\<lparr>milliseconds := 1\<rparr>"
    unfolding general by simp
  moreover have "(Timer_0A_Periodic_Task ^^ 1000) ?s = ?s\<lparr>seconds := 1\<rparr>"
    unfolding general by simp
  moreover have "(Timer_0A_Periodic_Task ^^ 60000) ?s = ?s\<lparr>minutes := 1\<rparr>"
    unfolding general by simp
  moreover have "(Timer_0A_Periodic_Task ^^ 600000) ?s = ?s"
    unfolding general by simp
  ultimately show ?thesis by simp
qed

text \<open>
  C7. With the counters in their ranges, \<open>start_stopwatch\<close> 1 and no reset pending, one
  invocation of the tick handler carries level by level: \<open>ms_elapsed\<close> always advances
  (99 goes to 0); \<open>milliseconds\<close> advances exactly when \<open>ms_elapsed\<close> was 99; \<open>seconds\<close>
  exactly when moreover \<open>milliseconds\<close> was 9; \<open>minutes\<close> exactly when moreover
  \<open>seconds\<close> was 59; and nothing else changes. From 99, 9, 59, 9 all four carries
  happen in the one invocation and the four counters end at 0.
\<close>

theorem carry_chain:
  assumes "ms_elapsed s \<le> 99" "milliseconds s \<le> 9" "seconds s \<le> 59" "minutes s \<le> 9"
    and "start_stopwatch s = 1" "reset_stopwatch s \<noteq> 1"
  shows "Timer_0A_Periodic_Task s =
     s\<lparr>ms_elapsed := (if ms_elapsed s = 99 then 0 else ms_elapsed s + 1),
       milliseconds := (if ms_elapsed s = 99
                        then (if milliseconds s = 9 then 0 else milliseconds s + 1)
                        else milliseconds s),
       seconds := (if ms_elapsed s = 99 \<and> milliseconds s = 9
                   then (if seconds s = 59 then 0 else seconds s + 1)
                   else seconds s),
       minutes := (if ms_elapsed s = 99 \<and> milliseconds s = 9 \<and> seconds s = 59
                   then (if minutes s = 9 then 0 else minutes s + 1)
                   else minutes s)\<rparr>
     \<and> (ms_elapsed s = 99 \<and> milliseconds s = 9 \<and> seconds s = 59 \<and> minutes s = 9 \<longrightarrow>
          Timer_0A_Periodic_Task s =
            s\<lparr>ms_elapsed := 0, milliseconds := 0, seconds := 0, minutes := 0\<rparr>)"
proof -
  from assms(1-4) have r: "in_range s" by (simp add: in_range_def)
  show ?thesis
    unfolding tick_running [OF r assms(5,6)] by simp
qed

theorem carry_chain_witness:
  "ms_elapsed \<lparr>counter = 0, ms_elapsed = 99, milliseconds = 9, seconds = 59, minutes = 9,
      start_stopwatch = 1, reset_stopwatch = 0, rgb_led = RGB_LED_GREEN\<rparr> \<le> 99
   \<and> milliseconds \<lparr>counter = 0, ms_elapsed = 99, milliseconds = 9, seconds = 59, minutes = 9,
      start_stopwatch = 1, reset_stopwatch = 0, rgb_led = RGB_LED_GREEN\<rparr> \<le> 9
   \<and> seconds \<lparr>counter = 0, ms_elapsed = 99, milliseconds = 9, seconds = 59, minutes = 9,
      start_stopwatch = 1, reset_stopwatch = 0, rgb_led = RGB_LED_GREEN\<rparr> \<le> 59
   \<and> minutes \<lparr>counter = 0, ms_elapsed = 99, milliseconds = 9, seconds = 59, minutes = 9,
      start_stopwatch = 1, reset_stopwatch = 0, rgb_led = RGB_LED_GREEN\<rparr> \<le> 9
   \<and> Timer_0A_Periodic_Task
      \<lparr>counter = 0, ms_elapsed = 99, milliseconds = 9, seconds = 59, minutes = 9,
       start_stopwatch = 1, reset_stopwatch = 0, rgb_led = RGB_LED_GREEN\<rparr>
     = \<lparr>counter = 0, ms_elapsed = 0, milliseconds = 0, seconds = 0, minutes = 0,
        start_stopwatch = 1, reset_stopwatch = 0, rgb_led = RGB_LED_GREEN\<rparr>"
proof -
  let ?s = "\<lparr>counter = 0, ms_elapsed = 99, milliseconds = 9, seconds = 59, minutes = 9,
      start_stopwatch = 1, reset_stopwatch = 0, rgb_led = RGB_LED_GREEN\<rparr>"
  have h: "ms_elapsed ?s \<le> 99" "milliseconds ?s \<le> 9" "seconds ?s \<le> 59" "minutes ?s \<le> 9"
      "start_stopwatch ?s = 1" "reset_stopwatch ?s \<noteq> 1"
    by simp_all
  from carry_chain [OF h] show ?thesis by simp
qed

section \<open>The tick handler while stopped\<close>

lemma tick_stopped:
  assumes "start_stopwatch s \<noteq> 1" "reset_stopwatch s \<noteq> 1"
  shows "Timer_0A_Periodic_Task s = s"
  using assms by (simp add: Timer_0A_Periodic_Task_def)

text \<open>
  C6, as the code has it. When \<open>start_stopwatch\<close> is not 1 (0, after Stop or a reset) and no
  reset request is pending, any number of invocations of the tick handler leaves the
  state as it is, the four counters included.
\<close>

theorem stopped_ticks_frozen:
  assumes "start_stopwatch s \<noteq> 1" "reset_stopwatch s \<noteq> 1"
  shows "(Timer_0A_Periodic_Task ^^ n) s = s"
  by (induction n) (simp_all add: tick_stopped [OF assms])

theorem stopped_ticks_frozen_witness:
  "start_stopwatch \<lparr>counter = 0, ms_elapsed = 12, milliseconds = 3, seconds = 5, minutes = 1,
      start_stopwatch = 0, reset_stopwatch = 0, rgb_led = RGB_LED_RED\<rparr> \<noteq> 1
   \<and> reset_stopwatch \<lparr>counter = 0, ms_elapsed = 12, milliseconds = 3, seconds = 5, minutes = 1,
      start_stopwatch = 0, reset_stopwatch = 0, rgb_led = RGB_LED_RED\<rparr> \<noteq> 1
   \<and> (Timer_0A_Periodic_Task ^^ 250)
      \<lparr>counter = 0, ms_elapsed = 12, milliseconds = 3, seconds = 5, minutes = 1,
       start_stopwatch = 0, reset_stopwatch = 0, rgb_led = RGB_LED_RED\<rparr>
     = \<lparr>counter = 0, ms_elapsed = 12, milliseconds = 3, seconds = 5, minutes = 1,
        start_stopwatch = 0, reset_stopwatch = 0, rgb_led = RGB_LED_RED\<rparr>"
proof -
  let ?s = "\<lparr>counter = 0, ms_elapsed = 12, milliseconds = 3, seconds = 5, minutes = 1,
      start_stopwatch = 0, reset_stopwatch = 0, rgb_led = RGB_LED_RED\<rparr>"
  have h: "start_stopwatch ?s \<noteq> 1" "reset_stopwatch ?s \<noteq> 1" by simp_all
  from stopped_ticks_frozen [OF h, of 250] h show ?thesis by simp
qed

text \<open>
  C6, as it is stated, fails when a reset request is pending: with \<open>start_stopwatch\<close> 0
  and \<open>reset_stopwatch\<close> 1, one invocation of the tick handler takes \<open>seconds\<close> from 5 to 0.
\<close>

theorem stopped_ticks_frozen_counterexample:
  "start_stopwatch \<lparr>counter = 0, ms_elapsed = 12, milliseconds = 3, seconds = 5, minutes = 1,
      start_stopwatch = 0, reset_stopwatch = 1, rgb_led = RGB_LED_OFF\<rparr> = 0
   \<and> seconds ((Timer_0A_Periodic_Task ^^ 1)
      \<lparr>counter = 0, ms_elapsed = 12, milliseconds = 3, seconds = 5, minutes = 1,
       start_stopwatch = 0, reset_stopwatch = 1, rgb_led = RGB_LED_OFF\<rparr>)
     \<noteq> seconds \<lparr>counter = 0, ms_elapsed = 12, milliseconds = 3, seconds = 5, minutes = 1,
       start_stopwatch = 0, reset_stopwatch = 1, rgb_led = RGB_LED_OFF\<rparr>"
  by (simp add: Timer_0A_Periodic_Task_def)

section \<open>The selection counter\<close>

lemma counter_tick: "counter (Timer_0A_Periodic_Task s) = counter s"
  by (simp add: Timer_0A_Periodic_Task_def Let_def)

lemma counter_pmod: "counter (PMOD_BTN_Handler b s) = counter s"
  by (simp add: PMOD_BTN_Handler_def RGB_LED_Output_def)

lemma counter_increment:
  assumes "counter s \<le> 15"
  shows "unat (counter (EduBase_Button_Handler 0x08 s))
           = (if unat (counter s) = 15 then 0 else unat (counter s) + 1)"
proof (cases "counter s = 15")
  case True
  then show ?thesis by (simp add: EduBase_Button_Handler_def)
next
  case False
  from assms have "unat (counter s) \<le> 15" by (simp add: word_le_nat_alt)
  moreover from False have "unat (counter s) \<noteq> 15" by (simp add: word_unat_eq_iff)
  ultimately have lt: "unat (counter s) < 15" by simp
  then have "\<not> 15 \<le> counter s" by (simp add: word_le_nat_alt)
  moreover from lt have "unat (counter s + 1) = unat (counter s) + 1"
    by (intro unat_succ) simp
  ultimately show ?thesis using lt by (simp add: EduBase_Button_Handler_def)
qed

lemma counter_decrement:
  "unat (counter (EduBase_Button_Handler 0x04 s))
     = (if unat (counter s) = 0 then 15 else unat (counter s) - 1)"
proof (cases "counter s = 0")
  case True
  then show ?thesis by (simp add: EduBase_Button_Handler_def)
next
  case False
  then have "unat (counter s) \<noteq> 0" by (simp add: unat_eq_0)
  with False show ?thesis
    by (simp add: EduBase_Button_Handler_def unat_minus_one)
qed

lemma counter_edubase:
  assumes "counter s \<le> 15"
  shows "counter (EduBase_Button_Handler b s) \<le> 15"
proof -
  from assms have le: "unat (counter s) \<le> 15" by (simp add: word_le_nat_alt)
  have inc: "unat (counter (EduBase_Button_Handler 0x08 s)) \<le> 15"
    using le by (simp add: counter_increment [OF assms])
  have dec: "unat (counter (EduBase_Button_Handler 0x04 s)) \<le> 15"
    unfolding counter_decrement using le by auto
  consider "b = 0x08" | "b = 0x04" | "b \<noteq> 0x08" "b \<noteq> 0x04" by blast
  then show ?thesis
  proof cases
    case 1
    with inc show ?thesis by (simp add: word_le_nat_alt)
  next
    case 2
    with dec show ?thesis by (simp add: word_le_nat_alt)
  next
    case 3
    with assms show ?thesis by (simp add: EduBase_Button_Handler_def)
  qed
qed

lemma counter_step: "counter s \<le> 15 \<Longrightarrow> counter (step e s) \<le> 15"
  by (cases e) (simp_all add: counter_tick counter_pmod counter_edubase)

lemma counter_run: "counter s \<le> 15 \<Longrightarrow> counter (run es s) \<le> 15"
  unfolding run_def by (induction es arbitrary: s) (simp_all add: counter_step)

text \<open>
  C9. In every state that the zero-initialised program reaches, \<open>counter\<close> is at most 15.
  On a counter in that range the increment input (0x08) takes 15 to 0 and otherwise
  adds 1; the decrement input (0x04) takes 0 to 15 and otherwise subtracts 1 (read as
  numbers, so no wrap-around of the byte is involved). Whatever the status byte, an
  invocation of \<open>EduBase_Button_Handler\<close> leaves the four counters and the two flags
  as they were.
\<close>

theorem selection_counter:
  "counter (run es (initial_state led)) \<le> 15
   \<and> (counter s \<le> 15 \<longrightarrow>
        unat (counter (EduBase_Button_Handler 0x08 s))
          = (if unat (counter s) = 15 then 0 else unat (counter s) + 1))
   \<and> unat (counter (EduBase_Button_Handler 0x04 s))
          = (if unat (counter s) = 0 then 15 else unat (counter s) - 1)
   \<and> ms_elapsed (EduBase_Button_Handler b s) = ms_elapsed s
   \<and> milliseconds (EduBase_Button_Handler b s) = milliseconds s
   \<and> seconds (EduBase_Button_Handler b s) = seconds s
   \<and> minutes (EduBase_Button_Handler b s) = minutes s
   \<and> start_stopwatch (EduBase_Button_Handler b s) = start_stopwatch s
   \<and> reset_stopwatch (EduBase_Button_Handler b s) = reset_stopwatch s"
proof -
  have "counter (initial_state led) \<le> 15" by (simp add: initial_state_def)
  then have "counter (run es (initial_state led)) \<le> 15" by (rule counter_run)
  moreover have "ms_elapsed (EduBase_Button_Handler b s) = ms_elapsed s"
    "milliseconds (EduBase_Button_Handler b s) = milliseconds s"
    "seconds (EduBase_Button_Handler b s) = seconds s"
    "minutes (EduBase_Button_Handler b s) = minutes s"
    "start_stopwatch (EduBase_Button_Handler b s) = start_stopwatch s"
    "reset_stopwatch (EduBase_Button_Handler b s) = reset_stopwatch s"
    by (simp_all add: EduBase_Button_Handler_def)
  ultimately show ?thesis
    using counter_increment [of s] counter_decrement [of s] by simp
qed

theorem selection_counter_witness:
  "counter (run [EduBase_Button 0x04] (initial_state RGB_LED_OFF)) \<le> 15
   \<and> counter (run [EduBase_Button 0x04] (initial_state RGB_LED_OFF)) = 15
   \<and> counter (EduBase_Button_Handler 0x08 (run [EduBase_Button 0x04] (initial_state RGB_LED_OFF))) = 0
   \<and> counter (EduBase_Button_Handler 0x04 (run [EduBase_Button 0x04] (initial_state RGB_LED_OFF))) = 14"
proof -
  let ?s = "run [EduBase_Button 0x04] (initial_state RGB_LED_OFF)"
  have c: "counter ?s = 15"
    by (simp add: run_def EduBase_Button_Handler_def initial_state_def)
  then have h: "counter ?s \<le> 15" by simp
  from selection_counter [where es = "[EduBase_Button 0x04]" and led = RGB_LED_OFF
      and s = ?s and b = "0x08"]
  have "unat (counter (EduBase_Button_Handler 0x08 ?s)) = 0"
    and "unat (counter (EduBase_Button_Handler 0x04 ?s)) = 14"
    using h by (simp_all add: c)
  then have "counter (EduBase_Button_Handler 0x08 ?s) = 0"
    and "counter (EduBase_Button_Handler 0x04 ?s) = 14"
    by (simp_all add: word_unat_eq_iff)
  with c show ?thesis by simp
qed

section \<open>The control-input handler\<close>

text \<open>
  C5. The Start identifier (0x04) sets \<open>start_stopwatch\<close> to 1 and the indicator to green
  (running); the Stop identifier (0x08) clears \<open>start_stopwatch\<close> and sets the indicator to
  red (stopped); the Reset identifier (0x10) sets \<open>reset_stopwatch\<close> to 1 and turns the
  indicator off; the fourth identifier (0x20) changes nothing; and every other
  identifier changes nothing, neither a variable nor the indicator.
\<close>

theorem PMOD_BTN_Handler_mapping:
  "PMOD_BTN_Handler 0x04 s = s\<lparr>start_stopwatch := 1, rgb_led := RGB_LED_GREEN\<rparr>
   \<and> PMOD_BTN_Handler 0x08 s = s\<lparr>start_stopwatch := 0, rgb_led := RGB_LED_RED\<rparr>
   \<and> PMOD_BTN_Handler 0x10 s = s\<lparr>reset_stopwatch := 1, rgb_led := RGB_LED_OFF\<rparr>
   \<and> PMOD_BTN_Handler 0x20 s = s
   \<and> (\<forall>b. b \<notin> {0x04, 0x08, 0x10, 0x20} \<longrightarrow> PMOD_BTN_Handler b s = s)"
  by (simp add: PMOD_BTN_Handler_def RGB_LED_Output_def)

theorem PMOD_BTN_Handler_mapping_witness:
  "PMOD_BTN_Handler 0x04 (initial_state RGB_LED_OFF)
     = (initial_state RGB_LED_OFF)\<lparr>start_stopwatch := 1, rgb_led := RGB_LED_GREEN\<rparr>
   \<and> (0x40 :: uint8_t) \<notin> {0x04, 0x08, 0x10, 0x20}
   \<and> PMOD_BTN_Handler 0x40 (initial_state RGB_LED_OFF) = initial_state RGB_LED_OFF"
  using PMOD_BTN_Handler_mapping [of "initial_state RGB_LED_OFF"] by simp

text \<open>
  C8. An invocation with the Start (0x04) or the Stop (0x08) identifier leaves the four
  counters and \<open>reset_stopwatch\<close> as they were (and the selection counter too): only
  \<open>start_stopwatch\<close> and the indicator are written.
\<close>

theorem PMOD_BTN_Handler_start_stop_frame:
  "ms_elapsed (PMOD_BTN_Handler 0x04 s) = ms_elapsed s
   \<and> milliseconds (PMOD_BTN_Handler 0x04 s) = milliseconds s
   \<and> seconds (PMOD_BTN_Handler 0x04 s) = seconds s
   \<and> minutes (PMOD_BTN_Handler 0x04 s) = minutes s
   \<and> reset_stopwatch (PMOD_BTN_Handler 0x04 s) = reset_stopwatch s
   \<and> counter (PMOD_BTN_Handler 0x04 s) = counter s
   \<and> ms_elapsed (PMOD_BTN_Handler 0x08 s) = ms_elapsed s
   \<and> milliseconds (PMOD_BTN_Handler 0x08 s) = milliseconds s
   \<and> seconds (PMOD_BTN_Handler 0x08 s) = seconds s
   \<and> minutes (PMOD_BTN_Handler 0x08 s) = minutes s
   \<and> reset_stopwatch (PMOD_BTN_Handler 0x08 s) = reset_stopwatch s
   \<and> counter (PMOD_BTN_Handler 0x08 s) = counter s"
  by (simp add: PMOD_BTN_Handler_def RGB_LED_Output_def)

section \<open>Reset\<close>

text \<open>
  C3. Whatever the counters and \<open>start_stopwatch\<close> hold, when \<open>reset_stopwatch\<close> is set one
  invocation of the tick handler leaves the four counters at 0 and both flags at 0,
  and a second invocation right after it changes nothing at all.
\<close>

theorem reset_then_tick:
  assumes "reset_stopwatch s = 1"
  shows "Timer_0A_Periodic_Task s =
           s\<lparr>ms_elapsed := 0, milliseconds := 0, seconds := 0, minutes := 0,
             start_stopwatch := 0, reset_stopwatch := 0\<rparr>
         \<and> Timer_0A_Periodic_Task (Timer_0A_Periodic_Task s) = Timer_0A_Periodic_Task s"
proof -
  have first: "Timer_0A_Periodic_Task s =
           s\<lparr>ms_elapsed := 0, milliseconds := 0, seconds := 0, minutes := 0,
             start_stopwatch := 0, reset_stopwatch := 0\<rparr>"
    using assms by (simp add: Timer_0A_Periodic_Task_def Let_def)
  have second: "Timer_0A_Periodic_Task (Timer_0A_Periodic_Task s) = Timer_0A_Periodic_Task s"
    unfolding first by (simp add: Timer_0A_Periodic_Task_def)
  from first second show ?thesis by simp
qed

theorem reset_then_tick_witness:
  "reset_stopwatch \<lparr>counter = 3, ms_elapsed = 42, milliseconds = 7, seconds = 45, minutes = 3,
      start_stopwatch = 1, reset_stopwatch = 1, rgb_led = RGB_LED_OFF\<rparr> = 1
   \<and> Timer_0A_Periodic_Task \<lparr>counter = 3, ms_elapsed = 42, milliseconds = 7, seconds = 45,
      minutes = 3, start_stopwatch = 1, reset_stopwatch = 1, rgb_led = RGB_LED_OFF\<rparr>
     = \<lparr>counter = 3, ms_elapsed = 0, milliseconds = 0, seconds = 0, minutes = 0,
        start_stopwatch = 0, reset_stopwatch = 0, rgb_led = RGB_LED_OFF\<rparr>
   \<and> Timer_0A_Periodic_Task \<lparr>counter = 3, ms_elapsed = 0, milliseconds = 0, seconds = 0,
      minutes = 0, start_stopwatch = 0, reset_stopwatch = 0, rgb_led = RGB_LED_OFF\<rparr>
     = \<lparr>counter = 3, ms_elapsed = 0, milliseconds = 0, seconds = 0, minutes = 0,
        start_stopwatch = 0, reset_stopwatch = 0, rgb_led = RGB_LED_OFF\<rparr>"
proof -
  let ?s = "\<lparr>counter = 3, ms_elapsed = 42, milliseconds = 7, seconds = 45, minutes = 3,
      start_stopwatch = 1, reset_stopwatch = 1, rgb_led = RGB_LED_OFF\<rparr>"
  have pending: "reset_stopwatch ?s = 1" by simp
  from reset_then_tick [OF pending] pending show ?thesis by (elim conjE) simp
qed

text \<open>
  C10. A reset request wins over a Start that follows it: after the Reset identifier
  (0x10) and then the Start identifier (0x04), the next invocation of the tick handler
  leaves the four counters at 0 and \<open>start_stopwatch\<close> at 0 (and the request served), from
  every state.
\<close>

theorem reset_overrides_start:
  "Timer_0A_Periodic_Task (PMOD_BTN_Handler 0x04 (PMOD_BTN_Handler 0x10 s)) =
     s\<lparr>ms_elapsed := 0, milliseconds := 0, seconds := 0, minutes := 0,
       start_stopwatch := 0, reset_stopwatch := 0, rgb_led := RGB_LED_GREEN\<rparr>"
  by (simp add: Timer_0A_Periodic_Task_def PMOD_BTN_Handler_def RGB_LED_Output_def Let_def)

section \<open>Value extraction\<close>

text \<open>
  C4. On the four-element array of its caller, \<open>Calculate_Stopwatch_Value\<close> returns the
  state it was given and the array \<open>[milliseconds, seconds mod 10, seconds div 10, minutes]\<close>,
  whatever the array held and for every state; for milliseconds 7, seconds 45 and
  minutes 3 that is \<open>[7, 5, 4, 3]\<close>.
\<close>

theorem Calculate_Stopwatch_Value_digits:
  assumes "length stopwatch_value = 4"
  shows "Calculate_Stopwatch_Value s stopwatch_value =
           (s, [milliseconds s, seconds s mod 10, seconds s div 10, minutes s])
         \<and> (milliseconds s = 7 \<and> seconds s = 45 \<and> minutes s = 3 \<longrightarrow>
              snd (Calculate_Stopwatch_Value s stopwatch_value) = [7, 5, 4, 3])"
proof -
  from assms obtain w x y z where arr: "stopwatch_value = [w, x, y, z]"
    by (cases stopwatch_value; simp; rename_tac l1, case_tac l1; simp;
        rename_tac l2, case_tac l2; simp; rename_tac l3, case_tac l3; simp)
  have general: "Calculate_Stopwatch_Value s stopwatch_value =
           (s, [milliseconds s, seconds s mod 10, seconds s div 10, minutes s])"
    by (simp add: Calculate_Stopwatch_Value_def arr)
  have "(45 :: uint8_t) mod 10 = 5" "(45 :: uint8_t) div 10 = 4"
    by (simp_all add: word_mod_def word_div_def)
  with general show ?thesis by simp
qed

theorem Calculate_Stopwatch_Value_digits_witness:
  "length [0, 0, 0, 0 :: uint8_t] = 4
   \<and> Calculate_Stopwatch_Value
       \<lparr>counter = 0, ms_elapsed = 12, milliseconds = 7, seconds = 45, minutes = 3,
        start_stopwatch = 1, reset_stopwatch = 0, rgb_led = RGB_LED_GREEN\<rparr> [0, 0, 0, 0]
     = (\<lparr>counter = 0, ms_elapsed = 12, milliseconds = 7, seconds = 45, minutes = 3,
         start_stopwatch = 1, reset_stopwatch = 0, rgb_led = RGB_LED_GREEN\<rparr>, [7, 5, 4, 3])"
  using Calculate_Stopwatch_Value_digits [of "[0, 0, 0, 0]"
      "\<lparr>counter = 0, ms_elapsed = 12, milliseconds = 7, seconds = 45, minutes = 3,
        start_stopwatch = 1, reset_stopwatch = 0, rgb_led = RGB_LED_GREEN\<rparr>"]
  by simp

end
